theory Spec2Isabelle
  imports Main "HOL-Library.Sublist"
begin

section \<open>Strings of the Go standard library used by the pipeline\<close>

text \<open>
  A Go string is a sequence of bytes; \<open>string\<close> (a list of 8-bit characters) is the same
  thing.  \<open>strings.TrimSpace\<close> removes, from both ends, every rune for which
  \<open>unicode.IsSpace\<close> holds.  A valid UTF-8 encoding at the start (at the end) of a
  string decodes to its rune whatever surrounds it, so trimming runes is trimming the
  byte sequences listed in \<open>spaceRunes\<close>.
\<close>

definition spaceRunes :: "string list" where
  "spaceRunes =
    [[CHR 0x09], [CHR 0x0A], [CHR 0x0B], [CHR 0x0C], [CHR 0x0D], [CHR 0x20],
     [CHR 0xC2, CHR 0x85], [CHR 0xC2, CHR 0xA0],
     [CHR 0xE1, CHR 0x9A, CHR 0x80],
     [CHR 0xE2, CHR 0x80, CHR 0x80], [CHR 0xE2, CHR 0x80, CHR 0x81],
     [CHR 0xE2, CHR 0x80, CHR 0x82], [CHR 0xE2, CHR 0x80, CHR 0x83],
     [CHR 0xE2, CHR 0x80, CHR 0x84], [CHR 0xE2, CHR 0x80, CHR 0x85],
     [CHR 0xE2, CHR 0x80, CHR 0x86], [CHR 0xE2, CHR 0x80, CHR 0x87],
     [CHR 0xE2, CHR 0x80, CHR 0x88], [CHR 0xE2, CHR 0x80, CHR 0x89],
     [CHR 0xE2, CHR 0x80, CHR 0x8A],
     [CHR 0xE2, CHR 0x80, CHR 0xA8], [CHR 0xE2, CHR 0x80, CHR 0xA9],
     [CHR 0xE2, CHR 0x80, CHR 0xAF], [CHR 0xE2, CHR 0x81, CHR 0x9F],
     [CHR 0xE3, CHR 0x80, CHR 0x80]]"

text \<open>The width in bytes of the white-space rune a string starts with, 0 when it starts
  with none.\<close>

definition leadingSpace :: "string list \<Rightarrow> string \<Rightarrow> nat" where
  "leadingSpace encs s = (case find (\<lambda>e. prefix e s) encs of None \<Rightarrow> 0 | Some e \<Rightarrow> length e)"

function stripLeading :: "string list \<Rightarrow> string \<Rightarrow> string" where
  "stripLeading encs s =
     (if 0 < leadingSpace encs s \<and> s \<noteq> [] then stripLeading encs (drop (leadingSpace encs s) s)
      else s)"
  by pat_completeness auto
termination
  by (relation "measure (\<lambda>(encs, s). length s)") auto

definition TrimLeftSpace :: "string \<Rightarrow> string" where
  "TrimLeftSpace s = stripLeading spaceRunes s"

definition TrimRightSpace :: "string \<Rightarrow> string" where
  "TrimRightSpace s = rev (stripLeading (map rev spaceRunes) (rev s))"

definition TrimSpace :: "string \<Rightarrow> string" where
  "TrimSpace s = TrimRightSpace (TrimLeftSpace s)"

text \<open>
  \<open>strings.Replace(s, old, new, -1)\<close>: every non-overlapping occurrence of \<open>old\<close>,
  found from the left, becomes \<open>new\<close>.  The program passes the patterns \<open>"/"\<close> and
  \<open>":"\<close> only; Go's rule for an empty pattern (an insertion at every rune boundary) is
  outside this model, which leaves the string as it is there.
\<close>

function Replace :: "string \<Rightarrow> string \<Rightarrow> string \<Rightarrow> string" where
  "Replace s old new =
     (if old = [] \<or> s = [] then s
      else if prefix old s then new @ Replace (drop (length old) s) old new
      else hd s # Replace (tl s) old new)"
  by pat_completeness auto
termination
  by (relation "measure (\<lambda>(s, old, new). length s)") auto

subsection \<open>safePath\<close>

definition safePath :: "string \<Rightarrow> string" where
  "safePath path = Replace (Replace (TrimSpace path) ''/'' '''') '':'' '' -''"

section \<open>Catalog items and artifact tasks\<close>

text \<open>
  The types of package \<open>gog\<close> as \<open>fetchDetails\<close> reads them: an extra and a
  platform file both carry a name, a size as text, a version and a manual download
  path; a download group lists the files of each platform; an item has a title, its
  extras, its download groups and its nested items.
\<close>

record Artifact =
  aName :: string
  aSize :: string
  aVersion :: string
  aManualDownloadURL :: string

record Platforms =
  Windows :: "Artifact list"
  Mac :: "Artifact list"
  Linux :: "Artifact list"

datatype GameDetails =
  GameDetails (Title: string) (Extras: "Artifact list") (Downloads: "Platforms list")
    (DLCs: "GameDetails list")

text \<open>\<open>backend.GogFile\<close>, the task handed to a transfer worker.\<close>

record GogFile =
  Name :: string
  URL :: string
  File :: string
  Version :: string

text \<open>
  What \<open>fetchDetails\<close> takes from outside this repository: the endpoint prefix
  \<open>gog.EmbedEndpoint\<close> and the three colouring functions of package \<open>color\<close>.
\<close>

record Externals =
  EmbedEndpoint :: string
  LightPurple :: "string \<Rightarrow> string"
  LightYellow :: "string \<Rightarrow> string"
  Red :: "string \<Rightarrow> string"

text \<open>The two output channels; a run of \<open>fetchDetails\<close> is the sequence of its sends.\<close>

datatype Chan = gameDownload | extraDownload

type_synonym Send = "Chan \<times> GogFile"

definition sendExtra :: "Externals \<Rightarrow> string \<Rightarrow> GameDetails \<Rightarrow> Artifact \<Rightarrow> Send" where
  "sendExtra x path game extra =
     (extraDownload,
      \<lparr> Name = LightPurple x (''Extra for '' @ Title game @ '': '' @ aName extra) @ '' '' @
                LightYellow x (''['' @ aSize extra @ '']''),
        URL = EmbedEndpoint x @ aManualDownloadURL extra,
        File = path @ ''/Extras'',
        Version = aVersion extra \<rparr>)"

definition sendPlatform :: "Externals \<Rightarrow> string \<Rightarrow> string \<Rightarrow> Artifact \<Rightarrow> Send" where
  "sendPlatform x path platform d =
     (gameDownload,
      \<lparr> Name = LightPurple x (aName d) @ '' '' @ Red x (''['' @ platform @ '']'') @ '' '' @
                LightYellow x (''['' @ aSize d @ '']''),
        URL = EmbedEndpoint x @ aManualDownloadURL d,
        File = path @ ''/'' @ platform,
        Version = aVersion d \<rparr>)"

text \<open>The sends of one iteration of the expansion loop, for the item \<open>game\<close> at \<open>path\<close>.\<close>

definition emitItem :: "Externals \<Rightarrow> string \<Rightarrow> GameDetails \<Rightarrow> Send list" where
  "emitItem x path game =
     map (sendExtra x path game) (Extras game) @
     (case Downloads game of
        [] \<Rightarrow> []
      | download # _ \<Rightarrow>
          map (sendPlatform x path ''Windows'') (Windows download) @
          map (sendPlatform x path ''Mac'') (Mac download) @
          map (sendPlatform x path ''Linux'') (Linux download))"

fun nodes :: "GameDetails \<Rightarrow> nat" where
  "nodes (GameDetails t es ds dlcs) = Suc (sum_list (map nodes dlcs))"

text \<open>
  The loop \<open>for i := 0; i < len(games); i++\<close> over the slice \<open>games\<close> that its own body
  appends to.  \<open>games[i].Path[1:]\<close> drops the first byte of the stored path, which is
  never empty (every stored path contains a \<open>/\<close>).
\<close>

function expand :: "Externals \<Rightarrow> nat \<Rightarrow> (string \<times> GameDetails) list \<Rightarrow> Send list" where
  "expand x i games =
     (if i < length games then
        (let path = drop 1 (fst (games ! i));
             game = snd (games ! i)
         in emitItem x path game @
            expand x (i + 1)
              (games @ map (\<lambda>dlc. (path @ ''/'' @ safePath (Title dlc), dlc)) (DLCs game)))
      else [])"
  by pat_completeness auto
termination
proof (relation "measure (\<lambda>(x, i, games). sum_list (map (nodes \<circ> snd) (drop i games)))")
  show "wf (measure (\<lambda>(x, i, games). sum_list (map (nodes \<circ> snd) (drop i games))))"
    by simp
next
  fix x :: Externals and i :: nat and games :: "(string \<times> GameDetails) list"
    and path :: string and game :: GameDetails
  assume lt: "i < length games" and g: "game = snd (games ! i)"
  let ?new = "map (\<lambda>dlc. (path @ ''/'' @ safePath (Title dlc), dlc)) (DLCs game)"
  have "nodes game = Suc (sum_list (map nodes (DLCs game)))"
    by (cases game) simp
  moreover have "drop i games = games ! i # drop (Suc i) games"
    using lt by (simp add: Cons_nth_drop_Suc)
  ultimately show "((x, i + 1, games @ ?new), (x, i, games))
      \<in> measure (\<lambda>(x, i, games). sum_list (map (nodes \<circ> snd) (drop i games)))"
    using lt g by (simp add: comp_def)
qed

text \<open>
  \<open>fetchDetails\<close>: for each identifier received, \<open>client.GameDetails\<close> either fails
  (\<open>None\<close>: the item is logged and passed over) or gives the item, which is expanded.
\<close>

fun fetchDetails :: "Externals \<Rightarrow> (int \<Rightarrow> GameDetails option) \<Rightarrow> int list \<Rightarrow> Send list" where
  "fetchDetails x client [] = []"
| "fetchDetails x client (gid # ids) =
     (case client gid of
        None \<Rightarrow> []
      | Some result \<Rightarrow> expand x 0 [(''/'' @ safePath (Title result), result)])
     @ fetchDetails x client ids"

text \<open>The destination directories of the tasks sent on the extras queue, in order.\<close>

definition extrasDirs :: "Send list \<Rightarrow> string list" where
  "extrasDirs sends = map (\<lambda>s. File (snd s)) (filter (\<lambda>s. fst s = extraDownload) sends)"

section \<open>Rate limiters\<close>

text \<open>
  A \<open>*ratelimit.Bucket\<close> is \<open>nil\<close> (\<open>None\<close>) or a bucket, described by the two arguments
  \<open>main\<close> gives \<open>ratelimit.NewBucketWithRate\<close>: the fill rate in tokens (bytes) per second
  (the integer that \<open>main\<close> converts to \<open>float64\<close>) and the capacity.  The flags are Go
  \<open>int\<close>s; the product with 1024 wraps at 64 bits.
\<close>

record Bucket =
  rate :: int
  capacity :: int

definition wrap64 :: "int \<Rightarrow> int" where
  "wrap64 n = (n + 2 ^ 63) mod 2 ^ 64 - 2 ^ 63"

text \<open>Lines 57 to 62 of \<open>main\<close>: the two buckets, from \<open>limit-download\<close> and \<open>limit-upload\<close>.\<close>

definition main_downloadBucket :: "int \<Rightarrow> int \<Rightarrow> Bucket option" where
  "main_downloadBucket limitDownload limitUpload =
     (if limitDownload > 0
      then Some \<lparr> rate = wrap64 (limitDownload * 1024), capacity = wrap64 (limitDownload * 1024) \<rparr>
      else None)"

definition main_uploadBucket :: "int \<Rightarrow> int \<Rightarrow> Bucket option" where
  "main_uploadBucket limitDownload limitUpload =
     (if limitUpload > 0
      then Some \<lparr> rate = wrap64 (limitUpload * 1024), capacity = wrap64 (limitDownload * 1024) \<rparr>
      else None)"

text \<open>
  A byte stream is the source stream \<open>readerTmp\<close> itself, or \<open>ratelimit.Reader(r, bucket)\<close>
  around a stream \<open>r\<close>.  Every byte read through the latter is taken from \<open>bucket\<close>:
  \<open>charged\<close> lists the bucket pointers a read goes through, innermost first.  Package
  \<open>ratelimit\<close> is not part of this repository: what it does with the bytes it is
  charged, and with a nil pointer, is not modelled.
\<close>

datatype Reader = readerTmp | ratelimit_Reader Reader "Bucket option"

fun charged :: "Reader \<Rightarrow> Bucket option list" where
  "charged readerTmp = []"
| "charged (ratelimit_Reader r b) = charged r @ [b]"

section \<open>The destination and the outside world\<close>

datatype Error =
  NoFilename | MkdirFailed | OpenFailed | CopyFailed | RenameFailed | UploadFailed | CopyObjectFailed

text \<open>How each attempt of the retry loop ends.\<close>

datatype Outcome =
  ConnectFailed | SkippedVersion | SkippedExisting | TransferFailed Error | MarkerFailed | Completed

datatype Step = Continue | Break

text \<open>
  The calls a worker makes on the destination, each with whether it succeeded: creating
  the directory, opening the temporary file, writing bytes to the temporary name,
  promoting the temporary name to the final name (\<open>os.Rename\<close>, \<open>CopyObject\<close>),
  deleting the temporary object, and writing the version marker.
\<close>

datatype Effect =
    MadeDir string bool
  | OpenedTmp string bool
  | WroteTmp string string bool
  | Promoted string string bool
  | DeletedTmp string bool
  | WroteMarker string string bool

text \<open>
  The state a worker acts on: the files (or objects) of the destination by name, the
  directories \<open>os.MkdirAll\<close> was asked for, the calls made on the destination, the
  number of bytes read from source streams, the bytes charged to bucket pointers, and
  the outcome of every attempt made so far.
\<close>

record World =
  files :: "string \<rightharpoonup> string"
  dirs :: "string set"
  effects :: "Effect list"
  sourceRead :: nat
  throttled :: "(Bucket option \<times> nat) list"
  outcomes :: "Outcome list"

text \<open>
  What the outside world does during one attempt.  \<open>conn\<close> is the result of
  \<open>client.DownloadFile\<close>: an error (\<open>None\<close>) or the resolved filename.  \<open>stream\<close> is what
  the transfer reads from the source.  \<open>ioCopy\<close> is how \<open>io.Copy\<close> ends: with no error,
  having written all of \<open>stream\<close>, or with an error after writing that many bytes of it.
  \<open>markerWrite\<close> is how \<open>ioutil.WriteFile\<close> ends: with no error, or with an error
  before the file was opened (\<open>None\<close>) or after it was truncated and that many bytes
  were written.  The other fields say which calls return an error.
\<close>

datatype CopyResult = CopyDone | CopyBroken nat

datatype WriteResult = WriteOk | WriteFailed "nat option"

record Env =
  conn :: "string option"
  stream :: string
  mkdirErr :: bool
  openErr :: bool
  ioCopy :: CopyResult
  renameErr :: bool
  markerWrite :: WriteResult
  uploadErr :: bool
  copyObjectErr :: bool
  deleteErr :: bool
  markerUploadErr :: bool

definition logged :: "Outcome \<Rightarrow> World \<Rightarrow> World" where
  "logged out w = w\<lparr> outcomes := outcomes w @ [out] \<rparr>"

definition did :: "Effect \<Rightarrow> World \<Rightarrow> World" where
  "did eff w = w\<lparr> effects := effects w @ [eff] \<rparr>"

text \<open>Reading \<open>n\<close> bytes through a stream: they leave the source and are charged to the
  buckets around it (\<open>ratelimit\<close> charges a read only when it returned bytes).\<close>

definition readThrough :: "Reader \<Rightarrow> nat \<Rightarrow> World \<Rightarrow> World" where
  "readThrough r n w =
     w\<lparr> sourceRead := sourceRead w + n,
        throttled := throttled w @ (if n > 0 then map (\<lambda>b. (b, n)) (charged r) else []) \<rparr>"

text \<open>
  The loop \<open>for i := 1; i <= *retries; i++\<close>, whose body ends each iteration with
  \<open>continue\<close> or \<open>break\<close>.  The counter is an unbounded integer here: it stays below
  the 64-bit limit for every setting of \<open>retries\<close> but the largest \<open>int\<close>.
\<close>

function retryLoop :: "int \<Rightarrow> (int \<Rightarrow> World \<Rightarrow> Step \<times> World) \<Rightarrow> int \<Rightarrow> World \<Rightarrow> World" where
  "retryLoop retries body i w =
     (if i \<le> retries then
        (case body i w of
           (Continue, w') \<Rightarrow> retryLoop retries body (i + 1) w'
         | (Break, w') \<Rightarrow> w')
      else w)"
  by pat_completeness auto
termination
  by (relation "measure (\<lambda>(retries, body, i, w). nat (retries + 1 - i))") auto

text \<open>
  The settings the two backends read: the flags \<open>retries\<close>, \<open>local-dir\<close>, \<open>s3-bucket\<close>
  and \<open>s3-prefix\<close>, and the two bucket pointers \<open>main\<close> hands over.
\<close>

record Config =
  retries :: int
  targetDir :: string
  s3_bucket :: string
  s3_prefix :: string
  uploadBucket :: "Bucket option"
  downloadBucket :: "Bucket option"

section \<open>The local backend\<close>

text \<open>\<open>ioutil.ReadFile\<close> with its error dropped: the content, or nothing for a missing file.\<close>

definition ReadFile :: "World \<Rightarrow> string \<Rightarrow> string" where
  "ReadFile w name = (case files w name of None \<Rightarrow> [] | Some c \<Rightarrow> c)"

text \<open>\<open>os.Stat\<close> with its error dropped: whether the name is a file or a directory (a
  directory may be named with a trailing slash).\<close>

definition Stat :: "World \<Rightarrow> string \<Rightarrow> bool" where
  "Stat w name =
     (files w name \<noteq> None \<or> name \<in> dirs w \<or>
      (name \<noteq> [] \<and> last name = CHR ''/'' \<and> butlast name \<in> dirs w))"

text \<open>\<open>ioutil.WriteFile\<close>: create or truncate, then write.  The result is whether the
  call returned an error.\<close>

definition WriteFile :: "WriteResult \<Rightarrow> string \<Rightarrow> string \<Rightarrow> World \<Rightarrow> bool \<times> World" where
  "WriteFile res name content w =
     (case res of
        WriteOk \<Rightarrow>
          (False, did (WroteMarker name content True) (w\<lparr> files := (files w)(name \<mapsto> content) \<rparr>))
      | WriteFailed None \<Rightarrow>
          (True, did (WroteMarker name content False) w)
      | WriteFailed (Some k) \<Rightarrow>
          (True, did (WroteMarker name content False)
                   (w\<lparr> files := (files w)(name \<mapsto> take k content) \<rparr>)))"

text \<open>
  \<open>downloadFile\<close> of the local backend.  \<open>os.OpenFile\<close> is called with
  \<open>O_WRONLY|O_CREATE\<close>: a missing file is created empty, an existing one keeps its
  content, and the bytes copied overwrite it from offset 0.
\<close>

definition local_downloadFile ::
    "Reader \<Rightarrow> string \<Rightarrow> string \<Rightarrow> Env \<Rightarrow> World \<Rightarrow> Error option \<times> World" where
  "local_downloadFile reader path filename e w =
     (if filename = [] then (Some NoFilename, w)
      else if mkdirErr e then (Some MkdirFailed, did (MadeDir path False) w)
      else
        let w1 = did (MadeDir path True) (w\<lparr> dirs := insert path (dirs w) \<rparr>);
            tmpfile = path @ ''/.'' @ filename @ ''.tmp'';
            outfile = path @ ''/'' @ filename
        in if openErr e then (Some OpenFailed, did (OpenedTmp tmpfile False) w1)
           else
             let old = (case files w1 tmpfile of None \<Rightarrow> [] | Some c \<Rightarrow> c);
                 written = (case ioCopy e of CopyDone \<Rightarrow> stream e | CopyBroken k \<Rightarrow> take k (stream e));
                 content = written @ drop (length written) old;
                 w2 = did (WroteTmp tmpfile written (ioCopy e = CopyDone))
                        (readThrough reader (length (stream e))
                          (did (OpenedTmp tmpfile True)
                            (w1\<lparr> files := (files w1)(tmpfile \<mapsto> content) \<rparr>)))
             in if ioCopy e \<noteq> CopyDone then (Some CopyFailed, w2)
                else if renameErr e then (Some RenameFailed, did (Promoted tmpfile outfile False) w2)
                else (None, did (Promoted tmpfile outfile True)
                              (w2\<lparr> files := ((files w2)(tmpfile := None))(outfile \<mapsto> content) \<rparr>)))"

text \<open>One iteration of the retry loop of \<open>local.DownloadFile\<close> for the task \<open>d\<close>.\<close>

definition local_attempt :: "Config \<Rightarrow> GogFile \<Rightarrow> Env \<Rightarrow> World \<Rightarrow> Step \<times> World" where
  "local_attempt cfg d e w =
     (let path = targetDir cfg @ ''/'' @ File d;
          reader = (if downloadBucket cfg = None
                    then ratelimit_Reader readerTmp (downloadBucket cfg)
                    else readerTmp)
      in case conn e of
           None \<Rightarrow> (Continue, logged ConnectFailed w)
         | Some filename \<Rightarrow>
             let versionFile = path @ ''/.'' @ filename @ ''.version'' in
             if Version d \<noteq> [] \<and> ReadFile w versionFile = Version d
             then (Break, logged SkippedVersion w)
             else if Version d = [] \<and> Stat w (path @ ''/'' @ filename)
             then (Break, logged SkippedExisting w)
             else
               (case local_downloadFile reader path filename e w of
                  (Some err, w1) \<Rightarrow> (Continue, logged (TransferFailed err) w1)
                | (None, w1) \<Rightarrow>
                    if Version d \<noteq> [] then
                      (case WriteFile (markerWrite e) versionFile (Version d) w1 of
                         (True, w2) \<Rightarrow> (Break, logged MarkerFailed w2)
                       | (False, w2) \<Rightarrow> (Break, logged Completed w2))
                    else (Break, logged Completed w1)))"

text \<open>The whole retry loop for one task; \<open>env i\<close> is the outside world during attempt \<open>i\<close>.\<close>

definition local_DownloadFile :: "Config \<Rightarrow> (int \<Rightarrow> Env) \<Rightarrow> GogFile \<Rightarrow> World \<Rightarrow> World" where
  "local_DownloadFile cfg env d w =
     retryLoop (retries cfg) (\<lambda>i. local_attempt cfg d (env i)) 1 w"

section \<open>The S3 backend\<close>

text \<open>
  \<open>path.Join\<close> of two elements: the non-empty elements joined by a slash, then
  \<open>path.Clean\<close>: empty and \<open>.\<close> elements go, a \<open>..\<close> element removes the element before
  it (or goes itself at the root), and an empty result is \<open>.\<close>.
\<close>

fun splitSlash :: "string \<Rightarrow> string list" where
  "splitSlash [] = [[]]"
| "splitSlash (c # cs) =
     (if c = CHR ''/'' then [] # splitSlash cs
      else (case splitSlash cs of [] \<Rightarrow> [[c]] | el # els \<Rightarrow> (c # el) # els))"

fun joinSlash :: "string list \<Rightarrow> string" where
  "joinSlash [] = []"
| "joinSlash [el] = el"
| "joinSlash (el # els) = el @ ''/'' @ joinSlash els"

definition cleanStep :: "bool \<Rightarrow> string list \<Rightarrow> string \<Rightarrow> string list" where
  "cleanStep rooted out el =
     (if el = [] \<or> el = ''.'' then out
      else if el = ''..'' then
        (if out \<noteq> [] \<and> last out \<noteq> ''..'' then butlast out
         else if rooted then out
         else out @ [el])
      else out @ [el])"

definition path_Clean :: "string \<Rightarrow> string" where
  "path_Clean p =
     (if p = [] then ''.''
      else
        let rooted = (hd p = CHR ''/'');
            body = joinSlash (foldl (cleanStep rooted) [] (splitSlash p))
        in if rooted then ''/'' @ body else if body = [] then ''.'' else body)"

definition path_Join :: "string \<Rightarrow> string \<Rightarrow> string" where
  "path_Join a b =
     (if a = [] \<and> b = [] then []
      else path_Clean (if a = [] then b else a @ ''/'' @ b))"

text \<open>
  \<open>readFile\<close>: the object is downloaded into a buffer of 64 zero bytes, which grows to
  the object's length when that is larger, and the zero bytes at the end are cut off.
  A failed download (a missing object) gives the empty string.
\<close>

definition TrimRightNUL :: "string \<Rightarrow> string" where
  "TrimRightNUL s = rev (dropWhile (\<lambda>c. c = CHR 0x00) (rev s))"

definition s3_readFile :: "World \<Rightarrow> string \<Rightarrow> string" where
  "s3_readFile w filename =
     (case files w filename of
        None \<Rightarrow> []
      | Some c \<Rightarrow> TrimRightNUL (c @ replicate (64 - length c) (CHR 0x00)))"

text \<open>\<open>fileExists\<close> with its error dropped: true only when \<open>HeadObject\<close> succeeds.\<close>

definition s3_fileExists :: "World \<Rightarrow> string \<Rightarrow> bool" where
  "s3_fileExists w filename = (files w filename \<noteq> None)"

text \<open>\<open>writeFile\<close>: one upload, which stores the whole object or fails and stores nothing.
  The result is whether the call returned an error.\<close>

definition s3_writeFile :: "bool \<Rightarrow> string \<Rightarrow> string \<Rightarrow> World \<Rightarrow> bool \<times> World" where
  "s3_writeFile err filename content w =
     (if err then (True, did (WroteMarker filename content False) w)
      else (False, did (WroteMarker filename content True)
                     (w\<lparr> files := (files w)(filename \<mapsto> content) \<rparr>)))"

text \<open>
  \<open>downloadFile\<close> of the S3 backend: upload to the temporary key, copy it to the final
  key, and (deferred, its result dropped) delete the temporary key.
\<close>

definition s3_downloadFile ::
    "Config \<Rightarrow> Reader \<Rightarrow> string \<Rightarrow> string \<Rightarrow> Env \<Rightarrow> World \<Rightarrow> Error option \<times> World" where
  "s3_downloadFile cfg reader basepath filename e w =
     (let tmpKey = path_Join basepath (''.'' @ filename @ ''.tmp'');
          key = path_Join basepath filename;
          Body = (if uploadBucket cfg = None then reader
                  else ratelimit_Reader reader (uploadBucket cfg));
          w0 = readThrough Body (length (stream e)) w
      in if uploadErr e then (Some UploadFailed, did (WroteTmp tmpKey [] False) w0)
         else
           let w1 = did (WroteTmp tmpKey (stream e) True)
                      (w0\<lparr> files := (files w0)(tmpKey \<mapsto> stream e) \<rparr>);
               w2 = (if copyObjectErr e then did (Promoted tmpKey key False) w1
                     else did (Promoted tmpKey key True)
                            (w1\<lparr> files := (files w1)(key \<mapsto> stream e) \<rparr>));
               w3 = (if deleteErr e then did (DeletedTmp tmpKey False) w2
                     else did (DeletedTmp tmpKey True)
                            (w2\<lparr> files := (files w2)(tmpKey := None) \<rparr>))
           in (if copyObjectErr e then Some CopyObjectFailed else None, w3))"

text \<open>One iteration of the retry loop of the S3 \<open>handler\<close> for the task \<open>d\<close>.\<close>

definition s3_attempt :: "Config \<Rightarrow> GogFile \<Rightarrow> Env \<Rightarrow> World \<Rightarrow> Step \<times> World" where
  "s3_attempt cfg d e w =
     (let basepath = (if s3_prefix cfg \<noteq> [] then path_Join (s3_prefix cfg) (File d) else File d);
          reader = (if downloadBucket cfg = None
                    then readerTmp
                    else ratelimit_Reader readerTmp (downloadBucket cfg))
      in case conn e of
           None \<Rightarrow> (Continue, logged ConnectFailed w)
         | Some filename \<Rightarrow>
             let versionFile = path_Join basepath (''.'' @ filename @ ''.version'') in
             if Version d \<noteq> [] \<and> s3_readFile w versionFile = Version d
             then (Break, logged SkippedVersion w)
             else if Version d = [] \<and> s3_fileExists w (path_Join basepath filename)
             then (Break, logged SkippedExisting w)
             else
               (case s3_downloadFile cfg reader basepath filename e w of
                  (Some err, w1) \<Rightarrow> (Continue, logged (TransferFailed err) w1)
                | (None, w1) \<Rightarrow>
                    if Version d \<noteq> [] then
                      (case s3_writeFile (markerUploadErr e) versionFile (Version d) w1 of
                         (True, w2) \<Rightarrow> (Break, logged MarkerFailed w2)
                       | (False, w2) \<Rightarrow> (Break, logged Completed w2))
                    else (Break, logged Completed w1)))"

definition s3_handler :: "Config \<Rightarrow> (int \<Rightarrow> Env) \<Rightarrow> GogFile \<Rightarrow> World \<Rightarrow> World" where
  "s3_handler cfg env d w =
     retryLoop (retries cfg) (\<lambda>i. s3_attempt cfg d (env i)) 1 w"

section \<open>Notions the properties are stated with\<close>










text \<open>An empty destination, and an attempt in which nothing goes wrong: the source
  resolves the filename \<open>f\<close> and streams \<open>s\<close>.\<close>

definition emptyWorld :: World where
  "emptyWorld = \<lparr> files = Map.empty, dirs = {}, effects = [], sourceRead = 0,
                  throttled = [], outcomes = [] \<rparr>"

definition smooth :: "string \<Rightarrow> string \<Rightarrow> Env" where
  "smooth f s = \<lparr> conn = Some f, stream = s, mkdirErr = False, openErr = False,
                  ioCopy = CopyDone, renameErr = False, markerWrite = WriteOk,
                  uploadErr = False, copyObjectErr = False, deleteErr = False,
                  markerUploadErr = False \<rparr>"

text \<open>A task with the version tag \<open>v\<close>, and settings with two attempts, the local
  directory \<open>/backup\<close>, no S3 prefix and the given bucket pointers.\<close>

definition task :: "string \<Rightarrow> GogFile" where
  "task v = \<lparr> Name = ''Extra for Game: manual [1 MB]'', URL = ''https://embed.gog.com/m0'',
              File = ''Game/Extras'', Version = v \<rparr>"

definition settings :: "Bucket option \<Rightarrow> Bucket option \<Rightarrow> Config" where
  "settings up down = \<lparr> retries = 2, targetDir = ''/backup'', s3_bucket = ''archive'',
                        s3_prefix = [], uploadBucket = up, downloadBucket = down \<rparr>"

definition kib :: "int \<Rightarrow> Bucket" where
  "kib n = \<lparr> rate = n * 1024, capacity = n * 1024 \<rparr>"

section \<open>Path sanitization\<close>

declare Replace.simps [simp del] stripLeading.simps [simp del] expand.simps [simp del]
  retryLoop.simps [simp del]

lemma Replace_single:
  "Replace s [c] new = concat (map (\<lambda>x. if x = c then new else [x]) s)"
proof (induction s)
  case Nil
  show ?case by (subst Replace.simps) simp
next
  case (Cons a s)
  show ?case using Cons.IH by (subst Replace.simps) auto
qed

lemma concat_drop_eq_filter:
  "concat (map (\<lambda>x. if x = c then [] else [x]) s) = filter (\<lambda>x. x \<noteq> c) s"
  by (induction s) simp_all

lemma leadingSpace_prefix:
  assumes "0 < leadingSpace encs s"
  shows "\<exists>e \<in> set encs. prefix e s \<and> leadingSpace encs s = length e"
proof (cases "find (\<lambda>e. prefix e s) encs")
  case None
  with assms show ?thesis by (simp add: leadingSpace_def)
next
  case (Some e)
  then have "e \<in> set encs" "prefix e s"
    by (auto simp: find_Some_iff)
  with Some show ?thesis by (auto simp: leadingSpace_def)
qed

lemma leadingSpace_zero:
  assumes "leadingSpace encs s = 0" and "[] \<notin> set encs"
  shows "\<forall>e \<in> set encs. \<not> prefix e s"
proof (cases "find (\<lambda>e. prefix e s) encs")
  case None
  then show ?thesis by (simp add: find_None_iff)
next
  case (Some e)
  then have "e \<in> set encs" by (auto simp: find_Some_iff)
  moreover from Some assms(1) have "e = []" by (simp add: leadingSpace_def)
  ultimately show ?thesis using assms(2) by simp
qed

lemma stripLeading_decomp:
  "\<exists>ls. set ls \<subseteq> set encs \<and> s = concat ls @ stripLeading encs s"
proof (induction encs s rule: stripLeading.induct)
  case (1 encs s)
  show ?case
  proof (cases "0 < leadingSpace encs s \<and> s \<noteq> []")
    case True
    then obtain e where e: "e \<in> set encs" "prefix e s" "leadingSpace encs s = length e"
      using leadingSpace_prefix by blast
    from "1.IH" [OF True] obtain ls where ls: "set ls \<subseteq> set encs"
      "drop (length e) s = concat ls @ stripLeading encs (drop (length e) s)"
      using e(3) by auto
    from e(2) have "s = e @ drop (length e) s"
      by (auto simp: prefix_def)
    then have "s = concat (e # ls) @ stripLeading encs (drop (length e) s)"
      using ls(2) by simp
    moreover have "stripLeading encs s = stripLeading encs (drop (length e) s)"
      using True e(3) by (subst stripLeading.simps) simp
    ultimately have "set (e # ls) \<subseteq> set encs \<and> s = concat (e # ls) @ stripLeading encs s"
      using e(1) ls(1) by simp
    then show ?thesis by blast
  next
    case False
    then have "stripLeading encs s = s"
      by (subst stripLeading.simps) auto
    then have "set [] \<subseteq> set encs \<and> s = concat [] @ stripLeading encs s" by simp
    then show ?thesis by blast
  qed
qed

lemma stripLeading_done: "leadingSpace encs (stripLeading encs s) = 0"
proof (induction encs s rule: stripLeading.induct)
  case (1 encs s)
  show ?case
  proof (cases "0 < leadingSpace encs s \<and> s \<noteq> []")
    case True
    then show ?thesis using "1.IH" by (subst stripLeading.simps) simp
  next
    case False
    then have eq: "stripLeading encs s = s"
      by (subst stripLeading.simps) auto
    show ?thesis
    proof (cases "s = []")
      case True
      have "leadingSpace encs [] = 0"
        by (auto simp: leadingSpace_def find_Some_iff split: option.splits)
      with True eq show ?thesis by simp
    next
      case False
      with \<open>\<not> (0 < leadingSpace encs s \<and> s \<noteq> [])\<close> eq show ?thesis by simp
    qed
  qed
qed

lemma spaceRunes_nonempty: "[] \<notin> set spaceRunes"
  by (simp add: spaceRunes_def)

lemma concat_rev_runes: "rev (concat ls) = concat (map rev (rev ls))"
  by (induction ls) simp_all

lemma TrimRightSpace_decomp:
  "\<exists>rs. set rs \<subseteq> set spaceRunes \<and> u = TrimRightSpace u @ concat rs"
proof -
  obtain rs' where rs': "set rs' \<subseteq> set (map rev spaceRunes)"
      "rev u = concat rs' @ stripLeading (map rev spaceRunes) (rev u)"
    using stripLeading_decomp [of "map rev spaceRunes" "rev u"] by blast
  from rs'(2) have "rev (rev u) = rev (concat rs' @ stripLeading (map rev spaceRunes) (rev u))"
    by simp
  then have u: "u = TrimRightSpace u @ concat (map rev (rev rs'))"
    by (simp add: TrimRightSpace_def concat_rev_runes)
  have "set (map rev (rev rs')) \<subseteq> set spaceRunes"
    using rs'(1) by auto
  with u show ?thesis by blast
qed

lemma TrimSpace_decomp:
  "\<exists>ls rs. set ls \<subseteq> set spaceRunes \<and> set rs \<subseteq> set spaceRunes \<and>
     title = concat ls @ TrimSpace title @ concat rs"
proof -
  obtain ls where ls: "set ls \<subseteq> set spaceRunes" "title = concat ls @ TrimLeftSpace title"
    using stripLeading_decomp [of spaceRunes title] by (auto simp: TrimLeftSpace_def)
  obtain rs where rs: "set rs \<subseteq> set spaceRunes"
      "TrimLeftSpace title = TrimSpace title @ concat rs"
    using TrimRightSpace_decomp [of "TrimLeftSpace title"] by (auto simp: TrimSpace_def)
  from ls(2) rs(2) have "title = concat ls @ TrimSpace title @ concat rs"
    by simp
  with ls(1) rs(1) show ?thesis by blast
qed

lemma TrimSpace_no_prefix:
  assumes "e \<in> set spaceRunes"
  shows "\<not> prefix e (TrimSpace title)"
proof
  assume p: "prefix e (TrimSpace title)"
  have "\<forall>e \<in> set spaceRunes. \<not> prefix e (TrimLeftSpace title)"
    unfolding TrimLeftSpace_def
    by (rule leadingSpace_zero [OF stripLeading_done spaceRunes_nonempty])
  moreover have "prefix (TrimSpace title) (TrimLeftSpace title)"
    using TrimRightSpace_decomp [of "TrimLeftSpace title"]
    by (auto simp: TrimSpace_def prefix_def)
  ultimately show False
    using p assms prefix_order.trans by blast
qed

lemma TrimSpace_no_suffix:
  assumes "e \<in> set spaceRunes"
  shows "\<not> suffix e (TrimSpace title)"
proof
  assume s: "suffix e (TrimSpace title)"
  let ?t = "stripLeading (map rev spaceRunes) (rev (TrimLeftSpace title))"
  have "[] \<notin> set (map rev spaceRunes)"
    using spaceRunes_nonempty by auto
  then have no: "\<forall>e' \<in> set (map rev spaceRunes). \<not> prefix e' ?t"
    by (rule leadingSpace_zero [OF stripLeading_done])
  from s have "prefix (rev e) ?t"
    by (simp add: TrimSpace_def TrimRightSpace_def suffix_to_prefix)
  moreover have "rev e \<in> set (map rev spaceRunes)"
    using assms by simp
  ultimately show False using no by blast
qed

text \<open>
  Claim C9, as stated, at its own example: the code does not sanitize \<open>"Foo: Bar/Baz"\<close> to
  \<open>"Foo -BarBaz"\<close>.  The blank that follows the colon stays, after the \<open>" -"\<close> that
  replaces the colon.
\<close>

theorem safePath_example_counterexample:
  "safePath ''Foo: Bar/Baz'' \<noteq> ''Foo -BarBaz''"
  by code_simp

text \<open>
  Claim C9, amended.  For every title, \<open>safePath\<close> is the title with its leading and
  trailing white-space runes removed (what is removed on either side is a sequence of
  white-space runes, and what remains neither starts nor ends with one), then every
  \<open>/\<close> removed, then every \<open>:\<close> replaced by \<open>" -"\<close>; the title \<open>"Foo: Bar/Baz"\<close>
  sanitizes to \<open>"Foo - BarBaz"\<close>.
\<close>

theorem safePath_sanitizes:
  "safePath title =
     concat (map (\<lambda>c. if c = CHR '':'' then '' -'' else [c])
       (filter (\<lambda>c. c \<noteq> CHR ''/'') (TrimSpace title)))
   \<and> (\<exists>ls rs. set ls \<subseteq> set spaceRunes \<and> set rs \<subseteq> set spaceRunes \<and>
         title = concat ls @ TrimSpace title @ concat rs)
   \<and> (\<forall>e \<in> set spaceRunes. \<not> prefix e (TrimSpace title) \<and> \<not> suffix e (TrimSpace title))
   \<and> safePath ''Foo: Bar/Baz'' = ''Foo - BarBaz''"
proof -
  have "safePath title =
     concat (map (\<lambda>c. if c = CHR '':'' then '' -'' else [c])
       (filter (\<lambda>c. c \<noteq> CHR ''/'') (TrimSpace title)))"
    by (simp add: safePath_def Replace_single concat_drop_eq_filter)
  moreover have "safePath ''Foo: Bar/Baz'' = ''Foo - BarBaz''"
    by code_simp
  ultimately show ?thesis
    using TrimSpace_decomp [of title] TrimSpace_no_prefix [of _ title]
      TrimSpace_no_suffix [of _ title]
    by blast
qed

text \<open>Claim C9, amended, at the title \<open>" a/b: c "\<close> between two blanks.\<close>

theorem safePath_sanitizes_witness:
  "safePath '' a/b: c '' = ''ab - c''
   \<and> \<not> prefix '' '' (TrimSpace '' a/b: c '') \<and> \<not> suffix '' '' (TrimSpace '' a/b: c '')"
proof -
  have sp: "'' '' \<in> set spaceRunes"
    by (simp add: spaceRunes_def)
  have "safePath '' a/b: c '' = ''ab - c''"
    by code_simp
  with sp show ?thesis
    using safePath_sanitizes [of "'' a/b: c ''"] by blast
qed

section \<open>Recursive expansion\<close>

text \<open>
  Claim C1 at a root item \<open>Game\<close> with one extra and two nested items \<open>A\<close> and \<open>B\<close>, each
  with one extra.  Three extras tasks are sent, but the two of the nested items go to
  \<open>ame/A/Extras\<close> and \<open>ame/B/Extras\<close>, not to \<open>Game/A/Extras\<close> and \<open>Game/B/Extras\<close>:
  the path stored for a nested item has no leading slash, and the loop drops the first
  byte of every stored path.
\<close>

theorem fetchDetails_nested_paths:
  "extrasDirs (fetchDetails
      \<lparr> EmbedEndpoint = ''https://embed.gog.com'', LightPurple = (\<lambda>s. s),
        LightYellow = (\<lambda>s. s), Red = (\<lambda>s. s) \<rparr>
      (\<lambda>gid. Some (GameDetails ''Game''
         [\<lparr> aName = ''manual'', aSize = ''1 MB'', aVersion = [], aManualDownloadURL = ''/m0'' \<rparr>] []
         [GameDetails ''A''
            [\<lparr> aName = ''map'', aSize = ''2 MB'', aVersion = [], aManualDownloadURL = ''/m1'' \<rparr>] [] [],
          GameDetails ''B''
            [\<lparr> aName = ''ost'', aSize = ''3 MB'', aVersion = [], aManualDownloadURL = ''/m2'' \<rparr>] [] []]))
      [1])
   = [''Game/Extras'', ''ame/A/Extras'', ''ame/B/Extras'']"
  by code_simp

section \<open>Rate limiting\<close>

text \<open>
  Claim C7 at \<open>limit-download = 1\<close> and \<open>limit-upload = 2\<close>.  The download bucket has
  rate and capacity 1024, one second of its own rate.  The upload bucket has rate 2048
  but capacity 1024: \<open>main\<close> sizes it from the download limit, where the claim says
  one second of the upload rate, 2048.
\<close>

theorem main_upload_bucket_capacity:
  "main_downloadBucket 1 2 = Some \<lparr> rate = 1024, capacity = 1024 \<rparr>
   \<and> main_uploadBucket 1 2 = Some \<lparr> rate = 2048, capacity = 1024 \<rparr>"
  by (simp add: main_downloadBucket_def main_uploadBucket_def wrap64_def)

text \<open>
  Claim C6 at a transfer of the three bytes \<open>abc\<close>.  In the local backend the test of the
  bucket pointer is inverted: with no download limit the stream is wrapped around the
  nil pointer, to which the three bytes are charged, and with a limit of 1 KiB/s the
  bare stream is read and nothing is charged to the bucket.  The S3 backend does what
  the claim says: nothing is charged without limits, and with both limits the three bytes
  pass through the download bucket and through the upload bucket.
\<close>

theorem local_rate_limit_inverted:
  "throttled (local_DownloadFile (settings None None) (\<lambda>i. smooth ''f'' ''abc'') (task []) emptyWorld)
     = [(None, 3)]
   \<and> throttled (local_DownloadFile (settings None (Some (kib 1)))
                 (\<lambda>i. smooth ''f'' ''abc'') (task []) emptyWorld)
     = []
   \<and> throttled (s3_handler (settings None None) (\<lambda>i. smooth ''f'' ''abc'') (task []) emptyWorld)
     = []
   \<and> throttled (s3_handler (settings (Some (kib 2)) (Some (kib 1)))
                 (\<lambda>i. smooth ''f'' ''abc'') (task []) emptyWorld)
     = [(Some (kib 1), 3), (Some (kib 2), 3)]"
  by code_simp

section \<open>Transfers\<close>

text \<open>
  Claim C10 in the S3 backend, at a task whose source resolves the empty filename.
  \<open>downloadFile\<close> of the S3 backend has no test of the filename: the attempt uploads
  the temporary object \<open>Game/Extras/..tmp\<close>, copies it to the key \<open>Game/Extras\<close> and
  writes the marker \<open>Game/Extras/..version\<close>, where the claim says that nothing is
  written.  The local backend has the test.
\<close>

theorem s3_empty_filename_is_written:
  "(let w = s3_handler (settings None None) (\<lambda>i. smooth [] ''abc'') (task ''1.0'') emptyWorld
    in outcomes w = [Completed]
     \<and> effects w = [WroteTmp ''Game/Extras/..tmp'' ''abc'' True,
                     Promoted ''Game/Extras/..tmp'' ''Game/Extras'' True,
                     DeletedTmp ''Game/Extras/..tmp'' True,
                     WroteMarker ''Game/Extras/..version'' ''1.0'' True]
     \<and> files w ''Game/Extras'' = Some ''abc''
     \<and> files w ''Game/Extras/..version'' = Some ''1.0'')"
  by code_simp

text \<open>
  Claim C2 in the local backend, with a download limit set.  The first attempt writes
  \<open>AAAAAA\<close> to the temporary file and then fails; the second attempt, which succeeds,
  streams \<open>BB\<close>.  The temporary file is opened without truncation, so the file promoted
  to \<open>setup.exe\<close> holds \<open>BBAAAA\<close>: the two bytes of the successful attempt and four
  bytes left over from the failed one.  In the S3 backend, where the first attempt leaves
  the temporary object \<open>AAAAAA\<close> behind (its copy and its deletion fail), the upload of
  the second attempt replaces it and the final object holds \<open>BB\<close>.
\<close>

theorem local_retry_keeps_stale_bytes:
  "(let w = local_DownloadFile (settings None (Some (kib 1)))
              (\<lambda>i. if i = 1 then (smooth ''setup.exe'' ''AAAAAA'')\<lparr> ioCopy := CopyBroken 6 \<rparr>
                    else smooth ''setup.exe'' ''BB'')
              (task []) emptyWorld
    in outcomes w = [TransferFailed CopyFailed, Completed]
     \<and> files w ''/backup/Game/Extras/setup.exe'' = Some ''BBAAAA'')
   \<and> (let w = s3_handler (settings None None)
              (\<lambda>i. if i = 1
                    then (smooth ''setup.exe'' ''AAAAAA'')\<lparr> copyObjectErr := True, deleteErr := True \<rparr>
                    else smooth ''setup.exe'' ''BB'')
              (task []) emptyWorld
    in outcomes w = [TransferFailed CopyObjectFailed, Completed]
     \<and> files w ''Game/Extras/setup.exe'' = Some ''BB'')"
  by code_simp

section \<open>The retry loop\<close>

lemma retryLoop_stop: "\<not> i \<le> r \<Longrightarrow> retryLoop r body i w = w"
  by (subst retryLoop.simps) simp

lemma retryLoop_Continue:
  "i \<le> r \<Longrightarrow> body i w = (Continue, w') \<Longrightarrow> retryLoop r body i w = retryLoop r body (i + 1) w'"
  by (subst retryLoop.simps) simp

lemma retryLoop_Break:
  "i \<le> r \<Longrightarrow> body i w = (Break, w') \<Longrightarrow> retryLoop r body i w = w'"
  by (subst retryLoop.simps) simp



subsection \<open>One attempt\<close>







subsection \<open>Retry bound\<close>






section \<open>Skipping\<close>










section \<open>Version markers\<close>









section \<open>Empty filenames in the local backend\<close>

lemma retryLoop_invariant:
  assumes "P w" and "\<And>i w st w'. P w \<Longrightarrow> body i w = (st, w') \<Longrightarrow> P w'"
  shows "P (retryLoop r body i w)"
  using assms
proof (induction r body i w rule: retryLoop.induct)
  case (1 r body i w)
  show ?case
  proof (cases "i \<le> r")
    case False
    then show ?thesis using "1.prems"(1) by (simp add: retryLoop_stop)
  next
    case True
    obtain st w' where b: "body i w = (st, w')" by (cases "body i w")
    have p: "P w'" using "1.prems"(2) [OF "1.prems"(1) b] .
    show ?thesis
    proof (cases st)
      case Break
      with True b p show ?thesis by (simp add: retryLoop_Break)
    next
      case Continue
      have "P (retryLoop r body (i + 1) w')"
        using "1.IH" [OF True b [symmetric] Continue p] "1.prems"(2) by blast
      with True b Continue show ?thesis by (simp add: retryLoop_Continue)
    qed
  qed
qed

lemma local_downloadFile_empty:
  "local_downloadFile reader path [] e w = (Some NoFilename, w)"
  by (simp add: local_downloadFile_def)

lemma local_attempt_empty:
  assumes "conn e = None \<or> conn e = Some []" and "local_attempt cfg d e w = (st, w')"
  shows "\<exists>out. w' = logged out w"
  using assms(1)
proof
  assume "conn e = None"
  with assms(2) show ?thesis
    by (auto simp: local_attempt_def)
next
  assume "conn e = Some []"
  with assms(2) show ?thesis
    by (auto simp: local_attempt_def local_downloadFile_empty Let_def split: if_splits)
qed

text \<open>
  The local backend at a task whose source resolves the empty filename in every attempt
  that connects: nothing is written, whatever else happens.
\<close>

lemma local_empty_filename_no_write:
  assumes "\<forall>i. conn (env i) = None \<or> conn (env i) = Some []"
  shows "files (local_DownloadFile cfg env d w) = files w
       \<and> dirs (local_DownloadFile cfg env d w) = dirs w
       \<and> effects (local_DownloadFile cfg env d w) = effects w"
  unfolding local_DownloadFile_def
proof (rule retryLoop_invariant [where P = "\<lambda>v. files v = files w \<and> dirs v = dirs w \<and> effects v = effects w"])
  show "files w = files w \<and> dirs w = dirs w \<and> effects w = effects w" by simp
next
  fix i v st v'
  assume p: "files v = files w \<and> dirs v = dirs w \<and> effects v = effects w"
    and a: "local_attempt cfg d (env i) v = (st, v')"
  from assms have "conn (env i) = None \<or> conn (env i) = Some []" by simp
  from local_attempt_empty [OF this a] obtain out where "v' = logged out v" by blast
  with p show "files v' = files w \<and> dirs v' = dirs w \<and> effects v' = effects w"
    by (simp add: logged_def)
qed

end
